theory Spec2Isabelle
  imports Main "HOL-Library.AList"
begin

section \<open>Data model\<close>

text \<open>
  The highlight values of \<^verbatim>\<open>src/app/components/ScriptureReader.tsx\<close>.
  \<^verbatim>\<open>highlightData\<close> is the object written to the \<^verbatim>\<open>highlights\<close> collection by
  \<^verbatim>\<open>saveHighlights\<close> (its \<^verbatim>\<open>timestamp: serverTimestamp()\<close> field is a server-side
  sentinel that no code path reads back; it is left out).  \<^verbatim>\<open>HighlightedWord\<close> is the
  interface of the same name: the same five fields and the optional \<^verbatim>\<open>id\<close>.
  Indices are JavaScript numbers that the renderer computes as sums of string lengths;
  they are modelled as integers.
\<close>

record highlightData =
  verseId :: string
  startIndex :: int
  endIndex :: int
  color :: string
  userId :: string

record HighlightedWord = highlightData +
  id_opt :: "string option"

text \<open>
  \<^verbatim>\<open>interface LocalHighlights { [verseId: string]: HighlightedWord[] }\<close>: an object used
  as a dictionary.  \<^verbatim>\<open>Object.values\<close> enumerates it in insertion order of the keys
  (verse ids have the form \<^verbatim>\<open>kjv_book_chapter_verse\<close>, never array indices), so the
  dictionary is an association list: assigning to a present key keeps its position, assigning
  to a new key appends, which is what \<^const>\<open>AList.update\<close> does.
\<close>

type_synonym LocalHighlights = "(string \<times> HighlightedWord list) list"

record SelectionState =
  isSelecting :: bool
  sel_startIndex :: "int option"
  sel_endIndex :: "int option"
  sel_verseId :: "string option"

text \<open>Of \<^verbatim>\<open>interface Verse\<close> the handlers read only the optional \<^verbatim>\<open>verseId\<close> and the text.\<close>

record Verse =
  verse_verseId :: "string option"
  verse_text :: string

text \<open>
  The React state the highlight handlers read and write: the context values of
  \<^verbatim>\<open>HighlightProvider\<close> (\<^verbatim>\<open>needsSync\<close>, \<^verbatim>\<open>isSyncing\<close>, \<^verbatim>\<open>localHighlights\<close>), the signed-in
  user's \<^verbatim>\<open>uid\<close>, and the component state of \<^verbatim>\<open>ScriptureReader\<close>.  \<^verbatim>\<open>connected\<close> stands for
  \<^verbatim>\<open>socket && isConnected\<close>; \<^verbatim>\<open>emitted\<close> collects the payloads of
  \<^verbatim>\<open>socket.emit('highlight', ...)\<close> in the order they are sent.
\<close>

record app_state =
  user :: "string option"
  needsSync :: bool
  isSyncing :: bool
  localHighlights :: LocalHighlights
  highlightedWords :: "HighlightedWord list"
  selection :: SelectionState
  verses :: "Verse list"
  selectedColor :: string
  connected :: bool
  emitted :: "HighlightedWord list"

section \<open>Local highlight state\<close>

text \<open>\<^verbatim>\<open>newHighlights[verseId]\<close> after \<^verbatim>\<open>if (!newHighlights[verseId]) newHighlights[verseId] = []\<close>.\<close>

definition bucketOf :: "LocalHighlights \<Rightarrow> string \<Rightarrow> HighlightedWord list" where
  "bucketOf prev vId = (case map_of prev vId of None \<Rightarrow> [] | Some hs \<Rightarrow> hs)"

text \<open>\<^verbatim>\<open>Object.values(localHighlights).flat()\<close>.\<close>

definition allFlattened :: "LocalHighlights \<Rightarrow> HighlightedWord list" where
  "allFlattened m = concat (map snd m)"

text \<open>
  The grouping loop of \<^verbatim>\<open>loadHighlights\<close> and of the effect on
  \<^verbatim>\<open>[verses, highlightedWords]\<close>: each highlight is pushed on the bucket of its verse.
\<close>

definition groupStep :: "LocalHighlights \<Rightarrow> HighlightedWord \<Rightarrow> LocalHighlights" where
  "groupStep groupedHighlights highlight =
     AList.update (verseId highlight)
       (bucketOf groupedHighlights (verseId highlight) @ [highlight]) groupedHighlights"

definition groupByVerse :: "HighlightedWord list \<Rightarrow> LocalHighlights" where
  "groupByVerse hs = foldl groupStep [] hs"

text \<open>
  The effect \<^verbatim>\<open>useEffect(..., [verses, highlightedWords])\<close>: when \<^verbatim>\<open>highlightedWords\<close> is not
  empty, \<^verbatim>\<open>localHighlights\<close> is replaced by the grouping of \<^verbatim>\<open>highlightedWords\<close>.
\<close>

definition regroupEffect :: "app_state \<Rightarrow> app_state" where
  "regroupEffect s =
     (if highlightedWords s \<noteq> []
      then s\<lparr>localHighlights := groupByVerse (highlightedWords s)\<rparr>
      else s)"

subsection \<open>Creating a highlight from a selection\<close>

text \<open>The updater passed to \<^verbatim>\<open>setLocalHighlights\<close> in \<^verbatim>\<open>handleMouseUp\<close>.\<close>

definition addLocalHighlight ::
    "string \<Rightarrow> int \<Rightarrow> int \<Rightarrow> HighlightedWord \<Rightarrow> LocalHighlights \<Rightarrow> LocalHighlights" where
  "addLocalHighlight vId start end' newHighlight prev =
     AList.update vId
       (filter (\<lambda>h. startIndex h < start \<or> endIndex h > end') (bucketOf prev vId)
          @ [newHighlight])
       prev"

text \<open>The updater passed to \<^verbatim>\<open>setHighlightedWords\<close> in \<^verbatim>\<open>handleMouseUp\<close>.\<close>

definition addHighlightedWord ::
    "string \<Rightarrow> int \<Rightarrow> int \<Rightarrow> HighlightedWord \<Rightarrow> HighlightedWord list \<Rightarrow> HighlightedWord list" where
  "addHighlightedWord vId start end' newHighlight prev =
     filter (\<lambda>h. verseId h \<noteq> vId \<or> startIndex h < start \<or> endIndex h > end') prev
       @ [newHighlight]"

definition noSelection :: SelectionState where
  "noSelection =
     \<lparr>isSelecting = False, sel_startIndex = None, sel_endIndex = None, sel_verseId = None\<rparr>"

definition handleMouseDown :: "string \<Rightarrow> int \<Rightarrow> app_state \<Rightarrow> app_state" where
  "handleMouseDown vId start s =
     s\<lparr>selection := \<lparr>isSelecting = True, sel_startIndex = Some start,
                      sel_endIndex = Some start, sel_verseId = Some vId\<rparr>\<rparr>"

definition handleMouseMove :: "string \<Rightarrow> int \<Rightarrow> app_state \<Rightarrow> app_state" where
  "handleMouseMove vId currentIndex s =
     (if isSelecting (selection s) \<and> sel_verseId (selection s) = Some vId
      then s\<lparr>selection := (selection s)\<lparr>sel_endIndex := Some currentIndex\<rparr>\<rparr>
      else s)"

text \<open>
  The body of the innermost \<^verbatim>\<open>if\<close> of \<^verbatim>\<open>handleMouseUp\<close>: build \<^verbatim>\<open>newHighlight\<close>, run both
  updaters, set \<^verbatim>\<open>needsSync\<close>, and emit on the socket when connected.
  \<^verbatim>\<open>user?.uid || ''\<close> is the empty string when nobody is signed in.
\<close>

definition createHighlight :: "string \<Rightarrow> int \<Rightarrow> int \<Rightarrow> app_state \<Rightarrow> app_state" where
  "createHighlight vId start end' s =
     (let newHighlight =
            \<lparr>verseId = vId, startIndex = start, endIndex = end', color = selectedColor s,
             userId = (case user s of None \<Rightarrow> [] | Some uid \<Rightarrow> uid), id_opt = None\<rparr>
      in s\<lparr>localHighlights := addLocalHighlight vId start end' newHighlight (localHighlights s),
            highlightedWords := addHighlightedWord vId start end' newHighlight (highlightedWords s),
            needsSync := True,
            emitted := (if connected s then emitted s @ [newHighlight] else emitted s)\<rparr>)"

text \<open>
  \<^verbatim>\<open>handleMouseUp\<close>.  The guard needs a selection in progress with both indices set and a
  truthy (non-empty) verse id; the range is normalised with \<^verbatim>\<open>Math.min\<close>/\<^verbatim>\<open>Math.max\<close> and
  used only when \<^verbatim>\<open>end > start\<close> and the verse is among the loaded ones.  The selection is
  reset on every path.
\<close>

definition handleMouseUp :: "app_state \<Rightarrow> app_state" where
  "handleMouseUp s =
     (let sel = selection s;
          s1 = (case (sel_startIndex sel, sel_endIndex sel, sel_verseId sel) of
                  (Some a, Some b, Some selVerse) \<Rightarrow>
                    if isSelecting sel \<and> selVerse \<noteq> [] then
                      (let start = min a b; end' = max a b in
                       if end' > start then
                         (case find (\<lambda>v. verse_verseId v = Some selVerse) (verses s) of
                            Some verse \<Rightarrow>
                              (case verse_verseId verse of
                                 Some vId \<Rightarrow>
                                   if vId \<noteq> [] then createHighlight vId start end' s else s
                               | None \<Rightarrow> s)
                          | None \<Rightarrow> s)
                       else s)
                    else s
                | _ \<Rightarrow> s)
      in s1\<lparr>selection := noSelection\<rparr>)"

subsection \<open>Receiving a highlight from the relay\<close>

text \<open>
  The handler of \<^verbatim>\<open>socketConnection.on('highlight', (data) => ...)\<close>.  The payload is
  whatever the relay forwards; it is stored as it arrives.
\<close>

definition onHighlight :: "HighlightedWord \<Rightarrow> app_state \<Rightarrow> app_state" where
  "onHighlight data s =
     s\<lparr>highlightedWords :=
         (let prev = highlightedWords s;
              exists = list_ex (\<lambda>h. verseId h = verseId data \<and> startIndex h = startIndex data
                          \<and> endIndex h = endIndex data \<and> userId h = userId data) prev
          in if \<not> exists then prev @ [data] else prev),
       localHighlights :=
         (let prev = localHighlights s;
              bucket = bucketOf prev (verseId data);
              exists = list_ex (\<lambda>h. startIndex h = startIndex data
                          \<and> endIndex h = endIndex data \<and> userId h = userId data) bucket
          in AList.update (verseId data) (if \<not> exists then bucket @ [data] else bucket) prev)\<rparr>"

section \<open>The document store\<close>

text \<open>
  The part of Firestore that the highlight code talks to: the \<^verbatim>\<open>highlights\<close> collection as
  a list of documents (document id and data), and what the client library does with it.
  \<^verbatim>\<open>getDocsFails\<close>, \<^verbatim>\<open>commitFails\<close> and \<^verbatim>\<open>deleteDocFails\<close> say whether the promise of
  \<^verbatim>\<open>getDocs\<close>, of \<^verbatim>\<open>batch.commit\<close> or of \<^verbatim>\<open>deleteDoc\<close> rejects.  \<^verbatim>\<open>doc(highlightsRef)\<close> makes a reference with a generated id:
  the \<open>n\<close>-th reference made gets the id \<^verbatim>\<open>autoId n\<close>, and \<^verbatim>\<open>allocated\<close> counts the
  references made so far.  \<^verbatim>\<open>requests\<close> records every round trip to the store.
\<close>

datatype request =
    GetDocs string
  | Commit "string list" "(string \<times> highlightData) list"
  | DeleteDoc string

record firestore =
  highlights :: "(string \<times> highlightData) list"
  getDocsFails :: bool
  commitFails :: bool
  deleteDocFails :: bool
  autoId :: "nat \<Rightarrow> string"
  allocated :: nat
  requests :: "request list"

text \<open>\<^verbatim>\<open>query(highlightsRef, where('userId', '==', uid))\<close> evaluated on the collection.\<close>

definition docsOfUser :: "string \<Rightarrow> (string \<times> highlightData) list \<Rightarrow> (string \<times> highlightData) list" where
  "docsOfUser uid docs = filter (\<lambda>d. userId (snd d) = uid) docs"

text \<open>
  An atomic batch of deletes and sets: either every operation is applied or none.
  \<^verbatim>\<open>batch.set\<close> on a reference replaces the document of that id.
\<close>

definition applyBatch ::
    "string list \<Rightarrow> (string \<times> highlightData) list \<Rightarrow> (string \<times> highlightData) list
       \<Rightarrow> (string \<times> highlightData) list" where
  "applyBatch deletes sets docs =
     filter (\<lambda>d. fst d \<notin> set deletes \<and> fst d \<notin> set (map fst sets)) docs @ sets"

text \<open>
  The loop \<^verbatim>\<open>for (const highlight of allHighlights)\<close>: one fresh reference per highlight, the
  data copied field by field with \<^verbatim>\<open>userId: user.uid\<close>.  The result is at once the list
  of \<^verbatim>\<open>batch.set\<close> operations and \<^verbatim>\<open>newHighlightDocs\<close>.
\<close>

fun newHighlightDocs ::
    "(nat \<Rightarrow> string) \<Rightarrow> nat \<Rightarrow> string \<Rightarrow> HighlightedWord list \<Rightarrow> (string \<times> highlightData) list" where
  "newHighlightDocs gen n uid [] = []"
| "newHighlightDocs gen n uid (highlight # rest) =
     (gen n, \<lparr>verseId = verseId highlight, startIndex = startIndex highlight,
               endIndex = endIndex highlight, color = color highlight, userId = uid\<rparr>)
       # newHighlightDocs gen (Suc n) uid rest"

text \<open>\<^verbatim>\<open>updatedHighlights\<close>: each new document as a \<^verbatim>\<open>HighlightedWord\<close> carrying its id.\<close>

definition updatedHighlights :: "(string \<times> highlightData) list \<Rightarrow> HighlightedWord list" where
  "updatedHighlights docs =
     map (\<lambda>d. \<lparr>verseId = verseId (snd d), startIndex = startIndex (snd d),
                endIndex = endIndex (snd d), color = color (snd d), userId = userId (snd d),
                id_opt = Some (fst d)\<rparr>) docs"

section \<open>Saving\<close>

text \<open>
  \<^verbatim>\<open>saveHighlights\<close> is an \<^verbatim>\<open>async\<close> function with two suspension points, \<^verbatim>\<open>await getDocs\<close>
  and \<^verbatim>\<open>await batch.commit()\<close>.  It is modelled as the three pieces of code between them.
  What the closure keeps across a suspension (\<^verbatim>\<open>user.uid\<close>, \<^verbatim>\<open>allHighlights\<close>, the batch) is
  carried by the task.

  The function is created anew by every render of \<^verbatim>\<open>ScriptureReader\<close>, and \<^verbatim>\<open>user\<close>,
  \<^verbatim>\<open>isSyncing\<close> and \<^verbatim>\<open>localHighlights\<close> are constants of that render.  So a call has two
  states: the render \<open>r\<close> its closure belongs to, from which these three are read, and the
  current state \<open>s\<close>, on which the setters \<^verbatim>\<open>setIsSyncing\<close>, \<^verbatim>\<open>setNeedsSync\<close> and
  \<^verbatim>\<open>setHighlightedWords\<close> act.  They differ whenever the state has changed since the render.
\<close>

datatype task =
    Finished
  | AwaitGetDocs string "HighlightedWord list"
  | AwaitCommit "string list" "(string \<times> highlightData) list"

text \<open>
  Up to \<^verbatim>\<open>await getDocs(existingHighlightsQuery)\<close>.  The early \<^verbatim>\<open>return\<close> of the empty case
  is inside \<^verbatim>\<open>try\<close>, so \<^verbatim>\<open>finally\<close> resets \<^verbatim>\<open>isSyncing\<close>.
\<close>

definition saveHighlights_start ::
    "app_state \<Rightarrow> app_state \<Rightarrow> firestore \<Rightarrow> app_state \<times> firestore \<times> task" where
  "saveHighlights_start r s db =
     (case user r of
        None \<Rightarrow> (s, db, Finished)
      | Some uid \<Rightarrow>
          if isSyncing r then (s, db, Finished)
          else
            (let allHighlights = allFlattened (localHighlights r) in
             if length allHighlights = 0
             then (s\<lparr>needsSync := False, isSyncing := False\<rparr>, db, Finished)
             else (s\<lparr>isSyncing := True\<rparr>,
                   db\<lparr>requests := requests db @ [GetDocs uid]\<rparr>,
                   AwaitGetDocs uid allHighlights)))"

text \<open>
  From the result of \<^verbatim>\<open>getDocs\<close> to \<^verbatim>\<open>await batch.commit()\<close>: a rejection goes to \<^verbatim>\<open>catch\<close>
  and \<^verbatim>\<open>finally\<close>; otherwise every returned document is deleted in the batch and the new
  documents are set.
\<close>

definition saveHighlights_gotDocs ::
    "string \<Rightarrow> HighlightedWord list \<Rightarrow> app_state \<Rightarrow> firestore \<Rightarrow> app_state \<times> firestore \<times> task" where
  "saveHighlights_gotDocs uid allHighlights s db =
     (if getDocsFails db then (s\<lparr>isSyncing := False\<rparr>, db, Finished)
      else
        (let existingHighlights = docsOfUser uid (highlights db);
             deletes = map fst existingHighlights;
             newDocs = newHighlightDocs (autoId db) (allocated db) uid allHighlights
         in (s,
             db\<lparr>allocated := allocated db + length allHighlights,
                requests := requests db @ [Commit deletes newDocs]\<rparr>,
             AwaitCommit deletes newDocs)))"

text \<open>From the result of \<^verbatim>\<open>batch.commit()\<close> to the end.\<close>

definition saveHighlights_committed ::
    "string list \<Rightarrow> (string \<times> highlightData) list \<Rightarrow> app_state \<Rightarrow> firestore
       \<Rightarrow> app_state \<times> firestore \<times> task" where
  "saveHighlights_committed deletes newDocs s db =
     (if commitFails db then (s\<lparr>isSyncing := False\<rparr>, db, Finished)
      else (s\<lparr>highlightedWords := updatedHighlights newDocs,
               needsSync := False, isSyncing := False\<rparr>,
            db\<lparr>highlights := applyBatch deletes newDocs (highlights db)\<rparr>,
            Finished))"

fun resume :: "task \<Rightarrow> app_state \<Rightarrow> firestore \<Rightarrow> app_state \<times> firestore \<times> task" where
  "resume Finished s db = (s, db, Finished)"
| "resume (AwaitGetDocs uid allHighlights) s db = saveHighlights_gotDocs uid allHighlights s db"
| "resume (AwaitCommit deletes newDocs) s db = saveHighlights_committed deletes newDocs s db"

text \<open>
  Running a suspended call to its end with nothing in between: at most two resumptions are
  left after the first piece.
\<close>

definition finish :: "task \<Rightarrow> app_state \<Rightarrow> firestore \<Rightarrow> app_state \<times> firestore" where
  "finish t s db =
     (case resume t s db of (s2, db2, t2) \<Rightarrow>
      case resume t2 s2 db2 of (s3, db3, t3) \<Rightarrow> (s3, db3))"

text \<open>
  A call of \<^verbatim>\<open>saveHighlights\<close>, made from the closure of render \<open>r\<close> in state \<open>s\<close>,
  that runs from start to end uninterrupted.
\<close>

definition saveHighlights :: "app_state \<Rightarrow> app_state \<Rightarrow> firestore \<Rightarrow> app_state \<times> firestore" where
  "saveHighlights r s db =
     (case saveHighlights_start r s db of (s1, db1, t1) \<Rightarrow> finish t1 s1 db1)"

subsection \<open>Deleting a highlight\<close>

text \<open>
  \<^verbatim>\<open>deleteHighlight\<close>, the one caller of \<^verbatim>\<open>saveHighlights\<close> in \<^verbatim>\<open>ScriptureReader\<close>.  Its three
  setters come first; the two with an updater function act on the current state.
\<close>

definition removeHighlight :: "HighlightedWord \<Rightarrow> app_state \<Rightarrow> app_state" where
  "removeHighlight highlight s =
     s\<lparr>localHighlights :=
         (case map_of (localHighlights s) (verseId highlight) of
            None \<Rightarrow> localHighlights s
          | Some bucket \<Rightarrow>
              AList.update (verseId highlight)
                (filter (\<lambda>h. startIndex h \<noteq> startIndex highlight
                               \<or> endIndex h \<noteq> endIndex highlight) bucket)
                (localHighlights s)),
       highlightedWords :=
         filter (\<lambda>h. verseId h \<noteq> verseId highlight \<or> startIndex h \<noteq> startIndex highlight
                        \<or> endIndex h \<noteq> endIndex highlight) (highlightedWords s),
       needsSync := True\<rparr>"

text \<open>
  Where a call of \<^verbatim>\<open>deleteHighlight\<close> stands after a piece of it has run: it has returned
  without saving, it waits for \<^verbatim>\<open>deleteDoc\<close> of a document, or it has called
  \<^verbatim>\<open>saveHighlights\<close>, which is at the given task.
\<close>

datatype step = Stop | AfterDeleteDoc string | Saving task

text \<open>
  Up to \<^verbatim>\<open>await deleteDoc(highlightRef)\<close> when the highlight has a (truthy) id; otherwise
  nothing is awaited and \<^verbatim>\<open>saveHighlights()\<close> is called at once, by the closure of the same
  render \<open>r\<close>, on the state the setters have just changed.
\<close>

definition deleteHighlight_start ::
    "HighlightedWord \<Rightarrow> app_state \<Rightarrow> app_state \<Rightarrow> firestore \<Rightarrow> app_state \<times> firestore \<times> step" where
  "deleteHighlight_start highlight r s db =
     (case user r of
        None \<Rightarrow> (s, db, Stop)
      | Some uid \<Rightarrow>
          (let s1 = removeHighlight highlight s in
           case id_opt highlight of
             Some docId \<Rightarrow>
               if docId \<noteq> []
               then (s1, db\<lparr>requests := requests db @ [DeleteDoc docId]\<rparr>, AfterDeleteDoc docId)
               else (case saveHighlights_start r s1 db of (s2, db2, t) \<Rightarrow> (s2, db2, Saving t))
           | None \<Rightarrow>
               (case saveHighlights_start r s1 db of (s2, db2, t) \<Rightarrow> (s2, db2, Saving t))))"

text \<open>
  From the result of \<^verbatim>\<open>deleteDoc\<close>: a rejection goes to \<^verbatim>\<open>catch\<close> and nothing is saved;
  otherwise the document is gone and \<^verbatim>\<open>saveHighlights()\<close> is called, still by the closure
  of render \<open>r\<close>.
\<close>

definition deleteHighlight_deleted ::
    "string \<Rightarrow> app_state \<Rightarrow> app_state \<Rightarrow> firestore \<Rightarrow> app_state \<times> firestore \<times> task" where
  "deleteHighlight_deleted docId r s db =
     (if deleteDocFails db then (s, db, Finished)
      else saveHighlights_start r s
             (db\<lparr>highlights := filter (\<lambda>d. fst d \<noteq> docId) (highlights db)\<rparr>))"

text \<open>The next piece of a call of \<^verbatim>\<open>deleteHighlight\<close>, up to the first await of the save.\<close>

definition proceed :: "step \<Rightarrow> app_state \<Rightarrow> app_state \<Rightarrow> firestore \<Rightarrow> app_state \<times> firestore \<times> task" where
  "proceed st r s db =
     (case st of
        Stop \<Rightarrow> (s, db, Finished)
      | AfterDeleteDoc docId \<Rightarrow> deleteHighlight_deleted docId r s db
      | Saving t \<Rightarrow> (s, db, t))"

text \<open>
  When the first piece has run its setters and the call waits for an answer of the store,
  React renders the changed state and the effect on \<^verbatim>\<open>highlightedWords\<close> runs.  A call
  that has ended within its first piece waits for nothing.
\<close>

definition rendered :: "step \<Rightarrow> app_state \<Rightarrow> app_state" where
  "rendered st s =
     (case st of
        Stop \<Rightarrow> s
      | AfterDeleteDoc docId \<Rightarrow> regroupEffect s
      | Saving t \<Rightarrow> (case t of Finished \<Rightarrow> s | _ \<Rightarrow> regroupEffect s))"

text \<open>
  A click on the delete button of a highlight in render \<open>r\<close>, with no other event until the
  save it starts has ended; the result is the state and the store at that moment.  The click
  handler belongs to the render on screen, so the state when it runs is \<open>r\<close> itself.
\<close>

definition deleteHighlight :: "HighlightedWord \<Rightarrow> app_state \<Rightarrow> firestore \<Rightarrow> app_state \<times> firestore" where
  "deleteHighlight highlight r db =
     (case deleteHighlight_start highlight r r db of (s1, db1, st) \<Rightarrow>
      case proceed st r (rendered st s1) db1 of (s2, db2, t) \<Rightarrow>
      finish t s2 db2)"

subsection \<open>The save button of the navigation bar\<close>






section \<open>Properties under study\<close>

text \<open>
  One user gesture on a verse: press at index \<open>a\<close>, drag to index \<open>b\<close>, release.
\<close>

definition selectRange :: "string \<Rightarrow> int \<Rightarrow> int \<Rightarrow> app_state \<Rightarrow> app_state" where
  "selectRange vId a b s = handleMouseUp (handleMouseMove vId b (handleMouseDown vId a s))"

definition selectRanges :: "string \<Rightarrow> (int \<times> int) list \<Rightarrow> app_state \<Rightarrow> app_state" where
  "selectRanges vId gestures s = foldl (\<lambda>st g. selectRange vId (fst g) (snd g) st) s gestures"

text \<open>
  The specification's wording, kept apart from the code: two half-open ranges overlap when
  \<^verbatim>\<open>startIndex < otherEnd && endIndex > otherStart\<close>; \<^verbatim>\<open>replaceOverlapping\<close> drops every
  overlapping highlight and appends the new one; a bucket has no self-overlap when no two
  of its highlights overlap.
\<close>

definition spec_overlaps :: "HighlightedWord \<Rightarrow> int \<Rightarrow> int \<Rightarrow> bool" where
  "spec_overlaps h start end' = (startIndex h < end' \<and> endIndex h > start)"


fun spec_noSelfOverlap :: "HighlightedWord list \<Rightarrow> bool" where
  "spec_noSelfOverlap [] = True"
| "spec_noSelfOverlap (h # hs) =
     (list_all (\<lambda>g. \<not> spec_overlaps g (startIndex h) (endIndex h)) hs \<and> spec_noSelfOverlap hs)"

text \<open>
  What the filter of \<^verbatim>\<open>handleMouseUp\<close> removes: a highlight \<open>h\<close> lies within the range
  \<open>[start, end]\<close> when it neither starts before \<open>start\<close> nor ends after \<open>end\<close>.
\<close>

definition within :: "HighlightedWord \<Rightarrow> int \<Rightarrow> int \<Rightarrow> bool" where
  "within h start end' = (start \<le> startIndex h \<and> endIndex h \<le> end')"

text \<open>No highlight of the bucket lies within the range of one that comes after it.\<close>

fun noneWithinLater :: "HighlightedWord list \<Rightarrow> bool" where
  "noneWithinLater [] = True"
| "noneWithinLater (h # hs) =
     (list_all (\<lambda>g. \<not> within h (startIndex g) (endIndex g)) hs \<and> noneWithinLater hs)"

text \<open>Every highlight held in memory has a non-empty range.\<close>

definition nonDegenerate :: "app_state \<Rightarrow> bool" where
  "nonDegenerate s =
     (list_all (\<lambda>h. startIndex h < endIndex h) (allFlattened (localHighlights s)) \<and>
      list_all (\<lambda>h. startIndex h < endIndex h) (highlightedWords s))"

text \<open>The requests that are batched writes.\<close>

definition isCommit :: "request \<Rightarrow> bool" where
  "isCommit q = (case q of Commit deletes sets \<Rightarrow> True | GetDocs uid \<Rightarrow> False
                  | DeleteDoc docId \<Rightarrow> False)"



text \<open>
  \<^verbatim>\<open>saveHighlights\<close> invoked twice in a row by the closure of one render \<open>r\<close>, the second
  time while the first waits for \<^verbatim>\<open>getDocs\<close>; then both run to their end.
\<close>

definition saveTwice :: "app_state \<Rightarrow> firestore \<Rightarrow> app_state \<times> firestore" where
  "saveTwice r db =
     (case saveHighlights_start r r db of (s1, db1, t1) \<Rightarrow>
      case saveHighlights_start r s1 db1 of (s2, db2, t2) \<Rightarrow>
      case finish t1 s2 db2 of (s3, db3) \<Rightarrow>
      finish t2 s3 db3)"

text \<open>
  Two clicks on delete buttons, of \<open>h1\<close> and then of \<open>h2\<close>, the second while the first
  call still waits for its \<^verbatim>\<open>deleteDoc\<close>.  The first click is handled in render \<open>r\<close>; the
  setters of the first call bring a new render (with the effect on
  \<^verbatim>\<open>highlightedWords\<close> run), in which the second click is handled, and the setters of
  the second call bring another.  Then the first
  \<^verbatim>\<open>deleteDoc\<close> answers and the first call goes on to \<^verbatim>\<open>saveHighlights\<close> of render \<open>r\<close>,
  the second answers and the second call goes on to \<^verbatim>\<open>saveHighlights\<close> of the render of
  its click, and both saves run to their end.  \<open>deleteTwice_second_start\<close> is the state in which the
  second save is invoked.
\<close>

definition deleteTwice_second_start ::
    "HighlightedWord \<Rightarrow> HighlightedWord \<Rightarrow> app_state \<Rightarrow> firestore \<Rightarrow> app_state" where
  "deleteTwice_second_start h1 h2 r db =
     (case deleteHighlight_start h1 r r db of (s1, db1, st1) \<Rightarrow>
      case deleteHighlight_start h2 (rendered st1 s1) (rendered st1 s1) db1 of (s2, db2, st2) \<Rightarrow>
      case proceed st1 r (rendered st2 s2) db2 of (s3, db3, t1) \<Rightarrow> s3)"

definition deleteTwice ::
    "HighlightedWord \<Rightarrow> HighlightedWord \<Rightarrow> app_state \<Rightarrow> firestore \<Rightarrow> app_state \<times> firestore" where
  "deleteTwice h1 h2 r db =
     (case deleteHighlight_start h1 r r db of (s1, db1, st1) \<Rightarrow>
      case deleteHighlight_start h2 (rendered st1 s1) (rendered st1 s1) db1 of (s2, db2, st2) \<Rightarrow>
      case proceed st1 r (rendered st2 s2) db2 of (s3, db3, t1) \<Rightarrow>
      case proceed st2 (rendered st1 s1) s3 db3 of (s4, db4, t2) \<Rightarrow>
      case finish t1 s4 db4 of (s5, db5) \<Rightarrow>
      finish t2 s5 db5)"

subsection \<open>Sample values\<close>

definition sample_verse :: Verse where
  "sample_verse = \<lparr>verse_verseId = Some ''V1'', verse_text = ''In the beginning God created''\<rparr>"

definition sample_H1 :: HighlightedWord where
  "sample_H1 = \<lparr>verseId = ''V1'', startIndex = 2, endIndex = 8, color = ''#FFEB3B'',
                 userId = ''U1'', id_opt = None\<rparr>"

definition sample_H2 :: HighlightedWord where
  "sample_H2 = \<lparr>verseId = ''V1'', startIndex = 5, endIndex = 10, color = ''#FFEB3B'',
                 userId = ''U1'', id_opt = None\<rparr>"

definition sample_empty :: app_state where
  "sample_empty =
     \<lparr>user = Some ''U1'', needsSync = False, isSyncing = False, localHighlights = [],
      highlightedWords = [], selection = noSelection, verses = [sample_verse],
      selectedColor = ''#FFEB3B'', connected = True, emitted = []\<rparr>"

text \<open>The state after \<open>H1\<close> has been drawn, with the mouse released on the range of \<open>H2\<close>.\<close>

definition sample_selecting :: app_state where
  "sample_selecting =
     sample_empty\<lparr>localHighlights := [(''V1'', [sample_H1])], highlightedWords := [sample_H1],
                  needsSync := True,
                  selection := \<lparr>isSelecting = True, sel_startIndex = Some 5,
                                 sel_endIndex = Some 10, sel_verseId = Some ''V1''\<rparr>\<rparr>"

text \<open>A highlight drawn by another user, as it arrives from the relay.\<close>

definition sample_remote :: HighlightedWord where
  "sample_remote = \<lparr>verseId = ''V1'', startIndex = 4, endIndex = 9, color = ''#90CAF9'',
                     userId = ''U2'', id_opt = None\<rparr>"

text \<open>A payload with an empty range, as a client other than this application can send it.\<close>

definition sample_degenerate :: HighlightedWord where
  "sample_degenerate = \<lparr>verseId = ''V1'', startIndex = 5, endIndex = 5, color = ''#FFEB3B'',
                         userId = ''U2'', id_opt = None\<rparr>"

text \<open>The mouse pressed and released on the same index of a verse.\<close>

definition sample_zero_length :: app_state where
  "sample_zero_length =
     sample_selecting\<lparr>selection := \<lparr>isSelecting = True, sel_startIndex = Some 5,
                                       sel_endIndex = Some 5, sel_verseId = Some ''V1''\<rparr>\<rparr>"

text \<open>A store that answers, holding one older document of user \<open>U1\<close> and one of \<open>U2\<close>.\<close>

definition sample_ids :: "nat \<Rightarrow> string" where
  "sample_ids n = (if n = 0 then ''docA'' else if n = 1 then ''docB''
                   else if n = 2 then ''docC'' else ''docD'')"

definition sample_db :: firestore where
  "sample_db =
     \<lparr>highlights =
        [(''old1'', \<lparr>verseId = ''V1'', startIndex = 0, endIndex = 3, color = ''#C5E1A5'',
                      userId = ''U1''\<rparr>),
         (''old2'', \<lparr>verseId = ''V1'', startIndex = 1, endIndex = 4, color = ''#C5E1A5'',
                      userId = ''U2''\<rparr>)],
      getDocsFails = False, commitFails = False, deleteDocFails = False,
      autoId = sample_ids, allocated = 0,
      requests = []\<rparr>"

text \<open>
  The sample state with \<open>H1\<close> drawn and the remote highlight of \<open>U2\<close> received, no gesture
  in progress and unsaved changes.
\<close>

definition sample_unsaved :: app_state where
  "sample_unsaved =
     sample_empty\<lparr>localHighlights := [(''V1'', [sample_H1, sample_remote])],
                  highlightedWords := [sample_H1, sample_remote], needsSync := True\<rparr>"


text \<open>
  Two highlights of \<open>U1\<close> as loaded from the store, the first being document \<open>old1\<close> of
  the sample store, and the renders that show the first alone and both.
\<close>

definition sample_saved :: HighlightedWord where
  "sample_saved = \<lparr>verseId = ''V1'', startIndex = 0, endIndex = 3, color = ''#C5E1A5'',
                    userId = ''U1'', id_opt = Some ''old1''\<rparr>"

definition sample_saved2 :: HighlightedWord where
  "sample_saved2 = \<lparr>verseId = ''V1'', startIndex = 7, endIndex = 16, color = ''#C5E1A5'',
                     userId = ''U1'', id_opt = Some ''old3''\<rparr>"

definition sample_one_saved :: app_state where
  "sample_one_saved =
     sample_empty\<lparr>localHighlights := [(''V1'', [sample_saved])],
                  highlightedWords := [sample_saved]\<rparr>"

definition sample_two_saved :: app_state where
  "sample_two_saved =
     sample_empty\<lparr>localHighlights := [(''V1'', [sample_saved, sample_saved2])],
                  highlightedWords := [sample_saved, sample_saved2]\<rparr>"

definition sample_db2 :: firestore where
  "sample_db2 =
     sample_db\<lparr>highlights :=
        highlights sample_db @
          [(''old3'', \<lparr>verseId = ''V1'', startIndex = 7, endIndex = 16, color = ''#C5E1A5'',
                        userId = ''U1''\<rparr>)]\<rparr>"


section \<open>Facts about the handlers\<close>

lemma bucketOf_update:
  "bucketOf (AList.update k v m) k' = (if k' = k then v else bucketOf m k')"
  by (simp add: bucketOf_def update_conv')

lemma handleMouseUp_cases:
  "handleMouseUp s =
    (case (sel_startIndex (selection s), sel_endIndex (selection s), sel_verseId (selection s)) of
       (Some a, Some b, Some v) \<Rightarrow>
         if isSelecting (selection s) \<and> v \<noteq> [] \<and> a \<noteq> b
              \<and> list_ex (\<lambda>x. verse_verseId x = Some v) (verses s)
         then (createHighlight v (min a b) (max a b) s)\<lparr>selection := noSelection\<rparr>
         else s\<lparr>selection := noSelection\<rparr>
     | _ \<Rightarrow> s\<lparr>selection := noSelection\<rparr>)"
proof (cases "sel_startIndex (selection s)")
  case None
  then show ?thesis by (simp add: handleMouseUp_def)
next
  case (Some a)
  note A = this
  show ?thesis
  proof (cases "sel_endIndex (selection s)")
    case None
    with A show ?thesis by (simp add: handleMouseUp_def)
  next
    case (Some b)
    note B = this
    show ?thesis
    proof (cases "sel_verseId (selection s)")
      case None
      with A B show ?thesis by (simp add: handleMouseUp_def)
    next
      case (Some v)
      have ab: "min a b < max a b \<longleftrightarrow> a \<noteq> b" by auto
      show ?thesis
      proof (cases "find (\<lambda>x. verse_verseId x = Some v) (verses s)")
        case None
        then have "\<not> list_ex (\<lambda>x. verse_verseId x = Some v) (verses s)"
          by (simp add: find_None_iff list_ex_iff)
        with None A B Some show ?thesis
          by (simp add: handleMouseUp_def Let_def)
      next
        case (Some x)
        then have x: "verse_verseId x = Some v" and ex: "list_ex (\<lambda>x. verse_verseId x = Some v) (verses s)"
          by (auto simp: find_Some_iff list_ex_iff)
        from A B \<open>sel_verseId (selection s) = Some v\<close> Some x ex ab show ?thesis
          by (simp add: handleMouseUp_def Let_def)
      qed
    qed
  qed
qed

lemma createHighlight_bucket:
  "bucketOf (localHighlights (createHighlight v st en s)) v' =
     (if v' = v
      then filter (\<lambda>h. \<not> within h st en) (bucketOf (localHighlights s) v)
             @ [\<lparr>verseId = v, startIndex = st, endIndex = en, color = selectedColor s,
                  userId = (case user s of None \<Rightarrow> [] | Some uid \<Rightarrow> uid), id_opt = None\<rparr>]
      else bucketOf (localHighlights s) v')"
proof -
  have "(\<lambda>h::HighlightedWord. startIndex h < st \<or> endIndex h > en) = (\<lambda>h. \<not> within h st en)"
    by (auto simp: within_def fun_eq_iff)
  then show ?thesis
    by (simp add: createHighlight_def Let_def addLocalHighlight_def bucketOf_update)
qed

lemma createHighlight_words:
  "highlightedWords (createHighlight v st en s) =
     filter (\<lambda>h. \<not> (verseId h = v \<and> within h st en)) (highlightedWords s)
       @ [\<lparr>verseId = v, startIndex = st, endIndex = en, color = selectedColor s,
            userId = (case user s of None \<Rightarrow> [] | Some uid \<Rightarrow> uid), id_opt = None\<rparr>]"
proof -
  have "(\<lambda>h::HighlightedWord. verseId h \<noteq> v \<or> startIndex h < st \<or> endIndex h > en)
          = (\<lambda>h. \<not> (verseId h = v \<and> within h st en))"
    by (auto simp: within_def fun_eq_iff)
  then show ?thesis
    by (simp add: createHighlight_def Let_def addHighlightedWord_def)
qed





lemma selectRange_eq:
  "selectRange v a b s =
     handleMouseUp (s\<lparr>selection := \<lparr>isSelecting = True, sel_startIndex = Some a,
                                      sel_endIndex = Some b, sel_verseId = Some v\<rparr>\<rparr>)"
  by (simp add: selectRange_def handleMouseMove_def handleMouseDown_def)

lemma selectRange_bucket:
  "bucketOf (localHighlights (selectRange v a b s)) v =
     (if v \<noteq> [] \<and> a \<noteq> b \<and> list_ex (\<lambda>x. verse_verseId x = Some v) (verses s)
      then filter (\<lambda>h. \<not> within h (min a b) (max a b)) (bucketOf (localHighlights s) v)
             @ [\<lparr>verseId = v, startIndex = min a b, endIndex = max a b,
                  color = selectedColor s,
                  userId = (case user s of None \<Rightarrow> [] | Some uid \<Rightarrow> uid), id_opt = None\<rparr>]
      else bucketOf (localHighlights s) v)"
  by (simp add: selectRange_eq handleMouseUp_cases createHighlight_bucket)

lemma noneWithinLater_filter:
  "noneWithinLater hs \<Longrightarrow> noneWithinLater (filter P hs)"
  by (induction hs) (auto simp: list_all_iff)

lemma noneWithinLater_snoc:
  "noneWithinLater (hs @ [n]) \<longleftrightarrow>
     noneWithinLater hs \<and> list_all (\<lambda>h. \<not> within h (startIndex n) (endIndex n)) hs"
  by (induction hs) (auto simp: list_all_iff)

lemma noneWithinLater_distinct:
  "noneWithinLater hs \<Longrightarrow> distinct (map (\<lambda>h. (startIndex h, endIndex h)) hs)"
  by (induction hs) (auto simp: list_all_iff within_def)

lemma selectRange_keeps_noneWithinLater:
  assumes "noneWithinLater (bucketOf (localHighlights s) v)"
  shows "noneWithinLater (bucketOf (localHighlights (selectRange v a b s)) v)"
  using assms
  by (simp add: selectRange_bucket noneWithinLater_snoc noneWithinLater_filter list_all_iff)

text \<open>
  Claim C2, as the code has it.  For every sequence of gestures on one verse, starting from
  a bucket in which no highlight lies within the range of a later one (the empty bucket is
  such), the bucket after the gestures again has no highlight that lies within the range of
  a later one; in particular no two of its highlights have the same range.  As every prefix
  of a sequence is a sequence, this holds after each gesture.  Highlights that merely
  intersect may both stay.
\<close>

theorem selectRanges_keep_noneWithinLater:
  assumes "noneWithinLater (bucketOf (localHighlights s) v)"
  shows "noneWithinLater (bucketOf (localHighlights (selectRanges v gestures s)) v)
         \<and> distinct (map (\<lambda>h. (startIndex h, endIndex h))
                        (bucketOf (localHighlights (selectRanges v gestures s)) v))"
proof -
  have "noneWithinLater (bucketOf (localHighlights (selectRanges v gestures s)) v)"
    using assms
  proof (induction gestures arbitrary: s)
    case Nil
    then show ?case by (simp add: selectRanges_def)
  next
    case (Cons g gs)
    have "selectRanges v (g # gs) s = selectRanges v gs (selectRange v (fst g) (snd g) s)"
      by (simp add: selectRanges_def)
    with Cons show ?case
      by (simp add: selectRange_keeps_noneWithinLater)
  qed
  then show ?thesis by (simp add: noneWithinLater_distinct)
qed

text \<open>The theorem at the empty sample state, after drawing \<open>[2,8)\<close> and then \<open>[5,10)\<close>.\<close>

theorem selectRanges_keep_noneWithinLater_witness:
  "noneWithinLater (bucketOf (localHighlights sample_empty) ''V1'')
   \<and> bucketOf (localHighlights (selectRanges ''V1'' [(2, 8), (5, 10)] sample_empty)) ''V1''
        = [sample_H1, sample_H2]
   \<and> noneWithinLater [sample_H1, sample_H2]"
  using selectRanges_keep_noneWithinLater [of sample_empty "''V1''" "[(2, 8), (5, 10)]"]
  by (simp add: selectRanges_def selectRange_eq handleMouseUp_def createHighlight_def
        addLocalHighlight_def addHighlightedWord_def Let_def noSelection_def
        sample_empty_def sample_verse_def sample_H1_def sample_H2_def bucketOf_def)

text \<open>
  Claim C2 as worded fails: from the empty bucket, which has no overlap, drawing \<open>[2,8)\<close>
  and then \<open>[5,10)\<close> leaves both highlights in the bucket, and they overlap.
\<close>

theorem no_self_overlap_counterexample:
  "spec_noSelfOverlap (bucketOf (localHighlights sample_empty) ''V1'')
   \<and> bucketOf (localHighlights (selectRanges ''V1'' [(2, 8), (5, 10)] sample_empty)) ''V1''
        = [sample_H1, sample_H2]
   \<and> spec_overlaps sample_H1 (startIndex sample_H2) (endIndex sample_H2)
   \<and> \<not> spec_noSelfOverlap
          (bucketOf (localHighlights (selectRanges ''V1'' [(2, 8), (5, 10)] sample_empty)) ''V1'')"
  by (simp add: selectRanges_def selectRange_eq handleMouseUp_def createHighlight_def
        addLocalHighlight_def addHighlightedWord_def Let_def noSelection_def
        sample_empty_def sample_verse_def sample_H1_def sample_H2_def bucketOf_def
        spec_overlaps_def)

text \<open>
  Claim C8.  When the selection does not have two indices \<open>a\<close>, \<open>b\<close> with
  \<open>min a b < max a b\<close> (a zero-length range, or an index missing), releasing the mouse only
  resets the selection: \<^verbatim>\<open>localHighlights\<close>, \<^verbatim>\<open>highlightedWords\<close> and \<^verbatim>\<open>needsSync\<close> are
  unchanged and nothing is emitted.  The handler has no failing path, so no error is raised.
\<close>

theorem invalid_selection_is_noop:
  assumes "\<not> (\<exists>a b. sel_startIndex (selection s) = Some a \<and> sel_endIndex (selection s) = Some b
                   \<and> min a b < max a b)"
  shows "handleMouseUp s = s\<lparr>selection := noSelection\<rparr>
         \<and> localHighlights (handleMouseUp s) = localHighlights s
         \<and> highlightedWords (handleMouseUp s) = highlightedWords s
         \<and> needsSync (handleMouseUp s) = needsSync s
         \<and> emitted (handleMouseUp s) = emitted s"
proof -
  have "handleMouseUp s = s\<lparr>selection := noSelection\<rparr>"
    using assms
    by (auto simp: handleMouseUp_cases split: option.splits)
  then show ?thesis by simp
qed

text \<open>The theorem at a press and release on index 5, with \<open>H1\<close> already drawn.\<close>

theorem invalid_selection_is_noop_witness:
  "sel_startIndex (selection sample_zero_length) = Some 5
   \<and> sel_endIndex (selection sample_zero_length) = Some 5
   \<and> localHighlights (handleMouseUp sample_zero_length) = [(''V1'', [sample_H1])]
   \<and> highlightedWords (handleMouseUp sample_zero_length) = [sample_H1]
   \<and> needsSync (handleMouseUp sample_zero_length) = needsSync sample_zero_length
   \<and> emitted (handleMouseUp sample_zero_length) = []"
  using invalid_selection_is_noop [of sample_zero_length]
  by (simp add: sample_zero_length_def sample_selecting_def sample_empty_def)







lemma set_bucketOf: "set (bucketOf m k) \<subseteq> set (allFlattened m)"
proof (cases "map_of m k")
  case None
  then show ?thesis by (simp add: bucketOf_def)
next
  case (Some hs)
  then have "(k, hs) \<in> set m" by (rule map_of_SomeD)
  then have "set hs \<subseteq> set (allFlattened m)"
    by (force simp: allFlattened_def)
  with Some show ?thesis by (simp add: bucketOf_def)
qed

lemma set_allFlattened_update:
  "set (allFlattened (AList.update k v m)) \<subseteq> set v \<union> set (allFlattened m)"
  by (induction m) (auto simp: allFlattened_def)

lemma set_allFlattened_groupStep:
  "set (allFlattened (groupStep m h)) = insert h (set (allFlattened m))"
proof (induction m)
  case Nil
  then show ?case by (simp add: groupStep_def allFlattened_def bucketOf_def)
next
  case (Cons p ps)
  show ?case
  proof (cases "fst p = verseId h")
    case True
    then show ?thesis
      by (cases p) (auto simp: groupStep_def allFlattened_def bucketOf_def)
  next
    case False
    then have "bucketOf (p # ps) (verseId h) = bucketOf ps (verseId h)"
      by (cases p) (auto simp: bucketOf_def)
    with False Cons show ?thesis
      by (auto simp: groupStep_def allFlattened_def)
  qed
qed

lemma set_allFlattened_foldl:
  "set (allFlattened (foldl groupStep m hs)) = set (allFlattened m) \<union> set hs"
  by (induction hs arbitrary: m) (auto simp: set_allFlattened_groupStep)

lemma set_allFlattened_groupByVerse: "set (allFlattened (groupByVerse hs)) = set hs"
proof -
  have "allFlattened [] = []" by (simp add: allFlattened_def)
  then show ?thesis by (simp add: groupByVerse_def set_allFlattened_foldl)
qed

lemma createHighlight_nonDegenerate:
  assumes "nonDegenerate s" "st < en"
  shows "nonDegenerate (createHighlight v st en s)"
proof -
  let ?n = "\<lparr>verseId = v, startIndex = st, endIndex = en, color = selectedColor s,
             userId = (case user s of None \<Rightarrow> [] | Some uid \<Rightarrow> uid), id_opt = None\<rparr>"
  have "set (allFlattened (addLocalHighlight v st en ?n (localHighlights s)))
          \<subseteq> insert ?n (set (allFlattened (localHighlights s)))"
    using set_allFlattened_update [of v _ "localHighlights s"] set_bucketOf [of "localHighlights s" v]
    by (fastforce simp: addLocalHighlight_def)
  moreover have "set (addHighlightedWord v st en ?n (highlightedWords s))
          \<subseteq> insert ?n (set (highlightedWords s))"
    by (auto simp: addHighlightedWord_def)
  ultimately show ?thesis
    using assms
    by (simp add: nonDegenerate_def createHighlight_def Let_def list_all_iff) fastforce
qed

lemma handleMouseUp_nonDegenerate:
  assumes "nonDegenerate s"
  shows "nonDegenerate (handleMouseUp s)"
proof -
  have sel: "nonDegenerate (t\<lparr>selection := x\<rparr>) = nonDegenerate t" for t x
    by (simp add: nonDegenerate_def)
  have "a \<noteq> b \<Longrightarrow> min a b < max a b" for a b :: int by auto
  with assms show ?thesis
    by (simp add: handleMouseUp_cases sel createHighlight_nonDegenerate split: option.splits)
qed

lemma onHighlight_nonDegenerate:
  assumes "nonDegenerate s" "startIndex d < endIndex d"
  shows "nonDegenerate (onHighlight d s)"
proof -
  have "set (allFlattened (localHighlights (onHighlight d s)))
          \<subseteq> insert d (set (allFlattened (localHighlights s)))"
    using set_allFlattened_update [of "verseId d" _ "localHighlights s"]
          set_bucketOf [of "localHighlights s" "verseId d"]
    by (fastforce simp: onHighlight_def Let_def split: if_splits)
  moreover have "set (highlightedWords (onHighlight d s)) \<subseteq> insert d (set (highlightedWords s))"
    by (auto simp: onHighlight_def Let_def)
  ultimately show ?thesis
    using assms by (simp add: nonDegenerate_def list_all_iff) fastforce
qed

lemma regroupEffect_nonDegenerate:
  assumes "nonDegenerate s"
  shows "nonDegenerate (regroupEffect s)"
  using assms
  by (simp add: nonDegenerate_def regroupEffect_def list_all_iff set_allFlattened_groupByVerse)

lemma saveHighlights_unfold:
  "saveHighlights r s db =
    (case user r of
       None \<Rightarrow> (s, db)
     | Some uid \<Rightarrow>
         if isSyncing r then (s, db)
         else if allFlattened (localHighlights r) = []
         then (s\<lparr>needsSync := False, isSyncing := False\<rparr>, db)
         else if getDocsFails db
         then (s\<lparr>isSyncing := False\<rparr>, db\<lparr>requests := requests db @ [GetDocs uid]\<rparr>)
         else
           (let deletes = map fst (docsOfUser uid (highlights db));
                newDocs = newHighlightDocs (autoId db) (allocated db) uid
                            (allFlattened (localHighlights r));
                db2 = db\<lparr>allocated := allocated db + length (allFlattened (localHighlights r)),
                         requests := requests db @ [GetDocs uid, Commit deletes newDocs]\<rparr>
            in if commitFails db then (s\<lparr>isSyncing := False\<rparr>, db2)
               else (s\<lparr>highlightedWords := updatedHighlights newDocs,
                        needsSync := False, isSyncing := False\<rparr>,
                     db2\<lparr>highlights := applyBatch deletes newDocs (highlights db)\<rparr>)))"
  by (simp add: saveHighlights_def saveHighlights_start_def finish_def
        saveHighlights_gotDocs_def saveHighlights_committed_def Let_def
      split: option.splits)





lemma newHighlightDocs_userId:
  "list_all (\<lambda>d. userId (snd d) = uid) (newHighlightDocs gen n uid hs)"
  by (induction hs arbitrary: n) simp_all

lemma length_newHighlightDocs [simp]: "length (newHighlightDocs gen n uid hs) = length hs"
  by (induction hs arbitrary: n) simp_all

lemma updatedHighlights_Nil [simp]: "updatedHighlights docs = [] \<longleftrightarrow> docs = []"
  by (simp add: updatedHighlights_def)

lemma newHighlightDocs_Nil [simp]: "newHighlightDocs gen n uid hs = [] \<longleftrightarrow> hs = []"
  by (cases hs) simp_all












text \<open>
  What the guard and the test for an empty list do: both read the render of the closure.
  A call whose render has \<^verbatim>\<open>isSyncing\<close> set returns at once, and a call whose render holds
  no highlight clears \<^verbatim>\<open>needsSync\<close> without a request, whatever the current state is.
\<close>

lemma saveHighlights_guard:
  "isSyncing r \<Longrightarrow> saveHighlights r s db = (s, db)"
  by (simp add: saveHighlights_unfold split: option.splits)

lemma saveHighlights_empty:
  "user r = Some uid \<Longrightarrow> \<not> isSyncing r \<Longrightarrow> allFlattened (localHighlights r) = [] \<Longrightarrow>
     saveHighlights r s db = (s\<lparr>needsSync := False, isSyncing := False\<rparr>, db)"
  by (simp add: saveHighlights_unfold)

text \<open>
  Claim C4 at two inputs.  First, with two saved highlights on screen the user clicks the
  delete button of one and then of the other, before the first \<^verbatim>\<open>deleteDoc\<close> has answered.
  When the second call reaches \<^verbatim>\<open>saveHighlights\<close> the first save is in flight and
  \<^verbatim>\<open>isSyncing\<close> is set, but the render of the second closure was made before and has it
  unset: the second call passes the guard, and two batches are committed.  Second,
  \<^verbatim>\<open>saveHighlights\<close> of one render invoked twice in a row commits two batches as well.
\<close>

theorem stale_isSyncing_two_commits:
  "isSyncing (deleteTwice_second_start sample_saved sample_saved2 sample_two_saved sample_db2)
   \<and> \<not> isSyncing (regroupEffect
          (fst (deleteHighlight_start sample_saved sample_two_saved sample_two_saved sample_db2)))
   \<and> snd (snd (deleteHighlight_start sample_saved sample_two_saved sample_two_saved sample_db2))
        = AfterDeleteDoc ''old1''
   \<and> requests (snd (deleteTwice sample_saved sample_saved2 sample_two_saved sample_db2)) =
        [DeleteDoc ''old1'', DeleteDoc ''old3'', GetDocs ''U1'', GetDocs ''U1'',
         Commit []
           [(''docA'', \<lparr>verseId = ''V1'', startIndex = 0, endIndex = 3, color = ''#C5E1A5'',
                         userId = ''U1''\<rparr>),
            (''docB'', \<lparr>verseId = ''V1'', startIndex = 7, endIndex = 16, color = ''#C5E1A5'',
                         userId = ''U1''\<rparr>)],
         Commit [''docA'', ''docB'']
           [(''docC'', \<lparr>verseId = ''V1'', startIndex = 7, endIndex = 16, color = ''#C5E1A5'',
                         userId = ''U1''\<rparr>)]]
   \<and> length (filter isCommit
        (requests (snd (deleteTwice sample_saved sample_saved2 sample_two_saved sample_db2)))) = 2
   \<and> length (filter isCommit (requests (snd (saveTwice sample_unsaved sample_db)))) = 2"
proof -
  have start1: "deleteHighlight_start sample_saved sample_two_saved sample_two_saved sample_db2 =
      (sample_two_saved\<lparr>localHighlights := [(''V1'', [sample_saved2])],
                         highlightedWords := [sample_saved2], needsSync := True\<rparr>,
       sample_db2\<lparr>requests := [DeleteDoc ''old1'']\<rparr>, AfterDeleteDoc ''old1'')"
    by (simp add: deleteHighlight_start_def removeHighlight_def Let_def sample_two_saved_def
          sample_empty_def sample_saved_def sample_saved2_def sample_db2_def sample_db_def)
  have r1: "rendered (AfterDeleteDoc ''old1'')
              (sample_two_saved\<lparr>localHighlights := [(''V1'', [sample_saved2])],
                         highlightedWords := [sample_saved2], needsSync := True\<rparr>)
            = sample_two_saved\<lparr>localHighlights := [(''V1'', [sample_saved2])],
                         highlightedWords := [sample_saved2], needsSync := True\<rparr>"
    by (simp add: rendered_def regroupEffect_def groupByVerse_def groupStep_def bucketOf_def
          sample_saved2_def sample_two_saved_def sample_empty_def)
  have r1': "regroupEffect (sample_two_saved\<lparr>localHighlights := [(''V1'', [sample_saved2])],
                         highlightedWords := [sample_saved2], needsSync := True\<rparr>)
            = sample_two_saved\<lparr>localHighlights := [(''V1'', [sample_saved2])],
                         highlightedWords := [sample_saved2], needsSync := True\<rparr>"
    using r1 by (simp add: rendered_def)
  have one: "isSyncing (deleteTwice_second_start sample_saved sample_saved2 sample_two_saved sample_db2)"
    unfolding deleteTwice_second_start_def start1 prod.case r1
    by (simp add: deleteHighlight_start_def removeHighlight_def proceed_def
          rendered_def regroupEffect_def deleteHighlight_deleted_def saveHighlights_start_def Let_def allFlattened_def
          sample_two_saved_def sample_empty_def sample_saved_def sample_saved2_def
          sample_db2_def sample_db_def)
  have two: "\<not> isSyncing (regroupEffect
          (fst (deleteHighlight_start sample_saved sample_two_saved sample_two_saved sample_db2)))"
    unfolding start1 fst_conv r1'
    by (simp add: sample_two_saved_def sample_empty_def)
  have st: "snd (snd (deleteHighlight_start sample_saved sample_two_saved sample_two_saved
                        sample_db2)) = AfterDeleteDoc ''old1''"
    unfolding start1 by simp
  have three: "requests (snd (deleteTwice sample_saved sample_saved2 sample_two_saved sample_db2)) =
        [DeleteDoc ''old1'', DeleteDoc ''old3'', GetDocs ''U1'', GetDocs ''U1'',
         Commit []
           [(''docA'', \<lparr>verseId = ''V1'', startIndex = 0, endIndex = 3, color = ''#C5E1A5'',
                         userId = ''U1''\<rparr>),
            (''docB'', \<lparr>verseId = ''V1'', startIndex = 7, endIndex = 16, color = ''#C5E1A5'',
                         userId = ''U1''\<rparr>)],
         Commit [''docA'', ''docB'']
           [(''docC'', \<lparr>verseId = ''V1'', startIndex = 7, endIndex = 16, color = ''#C5E1A5'',
                         userId = ''U1''\<rparr>)]]"
    unfolding deleteTwice_def start1 prod.case r1
    by (simp add: deleteHighlight_start_def removeHighlight_def proceed_def
          rendered_def regroupEffect_def deleteHighlight_deleted_def saveHighlights_start_def finish_def
          saveHighlights_gotDocs_def saveHighlights_committed_def Let_def allFlattened_def
          docsOfUser_def applyBatch_def sample_ids_def
          sample_two_saved_def sample_empty_def sample_saved_def sample_saved2_def
          sample_db2_def sample_db_def)
  have four: "length (filter isCommit (requests (snd (saveTwice sample_unsaved sample_db)))) = 2"
    by (simp add: saveTwice_def saveHighlights_start_def finish_def
          saveHighlights_gotDocs_def saveHighlights_committed_def Let_def allFlattened_def
          isCommit_def sample_unsaved_def sample_empty_def sample_db_def)
  from one two st three four show ?thesis
    by (simp add: isCommit_def)
qed

text \<open>
  Claim C5 at an input.  With one saved highlight on screen the user clicks its delete
  button.  When \<^verbatim>\<open>deleteHighlight\<close> calls \<^verbatim>\<open>saveHighlights\<close> the map flattens to the empty
  list, but the closure still has the map of its render, which holds the highlight: the
  call queries the store and commits a batch that stores the deleted highlight again, and
  \<^verbatim>\<open>highlightedWords\<close> gets it back.
\<close>

theorem stale_map_skips_short_circuit:
  "allFlattened (localHighlights
      (fst (deleteHighlight_start sample_saved sample_one_saved sample_one_saved sample_db))) = []
   \<and> requests (snd (deleteHighlight sample_saved sample_one_saved sample_db)) =
        [DeleteDoc ''old1'', GetDocs ''U1'',
         Commit []
           [(''docA'', \<lparr>verseId = ''V1'', startIndex = 0, endIndex = 3, color = ''#C5E1A5'',
                         userId = ''U1''\<rparr>)]]
   \<and> highlights (snd (deleteHighlight sample_saved sample_one_saved sample_db)) =
        [(''old2'', \<lparr>verseId = ''V1'', startIndex = 1, endIndex = 4, color = ''#C5E1A5'',
                      userId = ''U2''\<rparr>),
         (''docA'', \<lparr>verseId = ''V1'', startIndex = 0, endIndex = 3, color = ''#C5E1A5'',
                      userId = ''U1''\<rparr>)]
   \<and> highlightedWords (fst (deleteHighlight sample_saved sample_one_saved sample_db)) =
        [sample_saved\<lparr>id_opt := Some ''docA''\<rparr>]
   \<and> \<not> needsSync (fst (deleteHighlight sample_saved sample_one_saved sample_db))"
  by (simp add: deleteHighlight_def deleteHighlight_start_def removeHighlight_def proceed_def
        rendered_def regroupEffect_def
        deleteHighlight_deleted_def saveHighlights_start_def finish_def
        saveHighlights_gotDocs_def saveHighlights_committed_def updatedHighlights_def Let_def
        allFlattened_def docsOfUser_def applyBatch_def sample_ids_def
        sample_one_saved_def sample_empty_def sample_saved_def sample_db_def)





lemma updatedHighlights_ranges:
  "list_all (\<lambda>h. startIndex h < endIndex h) hs \<Longrightarrow>
     list_all (\<lambda>h. startIndex h < endIndex h)
       (updatedHighlights (newHighlightDocs gen n uid hs))"
  by (induction hs arbitrary: n) (simp_all add: updatedHighlights_def)

lemma saveHighlights_nonDegenerate:
  assumes "nonDegenerate s" and "nonDegenerate r"
  shows "nonDegenerate (fst (saveHighlights r s db))"
  using assms
  by (simp add: saveHighlights_unfold Let_def nonDegenerate_def updatedHighlights_ranges
      split: option.splits)

text \<open>
  Claim C7, as the code has it.  From a state in which every highlight has
  \<open>startIndex < endIndex\<close>: releasing the mouse keeps that, whatever the selection;
  receiving a remote event keeps it provided the event's own range has
  \<open>startIndex < endIndex\<close> (the handler stores the payload unchecked); regrouping
  keeps it, and so does saving from the closure of a render that had it too (as the
  state itself, when the save is called in the render on screen).
\<close>

theorem additions_keep_nonDegenerate:
  assumes "nonDegenerate s"
  shows "nonDegenerate (handleMouseUp s)
         \<and> (startIndex d < endIndex d \<longrightarrow> nonDegenerate (onHighlight d s))
         \<and> nonDegenerate (regroupEffect s)
         \<and> (nonDegenerate r \<longrightarrow> nonDegenerate (fst (saveHighlights r s db)))"
  using assms
  by (simp add: handleMouseUp_nonDegenerate onHighlight_nonDegenerate regroupEffect_nonDegenerate
        saveHighlights_nonDegenerate)

text \<open>
  The theorem at the sample state.
\<close>

theorem additions_keep_nonDegenerate_witness:
  "nonDegenerate sample_selecting
   \<and> nonDegenerate (handleMouseUp sample_selecting)
   \<and> startIndex sample_remote < endIndex sample_remote
   \<and> nonDegenerate (onHighlight sample_remote sample_selecting)
   \<and> nonDegenerate (regroupEffect sample_selecting)
   \<and> nonDegenerate (fst (saveHighlights sample_selecting sample_selecting sample_db))"
proof -
  have "nonDegenerate sample_selecting"
    by (simp add: nonDegenerate_def sample_selecting_def sample_empty_def sample_H1_def
          allFlattened_def)
  moreover have "startIndex sample_remote < endIndex sample_remote"
    by (simp add: sample_remote_def)
  ultimately show ?thesis
    using additions_keep_nonDegenerate [of sample_selecting sample_remote sample_selecting sample_db] by simp
qed

text \<open>
  Claim C7 as worded fails for remote receipt: the handler stores a payload with range
  \<open>[5,5)\<close> in the empty sample state.
\<close>

theorem remote_receipt_degenerate_counterexample:
  "nonDegenerate sample_empty
   \<and> localHighlights (onHighlight sample_degenerate sample_empty) = [(''V1'', [sample_degenerate])]
   \<and> \<not> startIndex sample_degenerate < endIndex sample_degenerate
   \<and> \<not> nonDegenerate (onHighlight sample_degenerate sample_empty)"
  by (simp add: nonDegenerate_def onHighlight_def Let_def bucketOf_def allFlattened_def
        sample_empty_def sample_degenerate_def)

end
